theory Spec2Isabelle
  imports Main
begin

section \<open>JavaScript values, errors and requests\<close>

text \<open>
  The service is three copies of one Express application: \<^verbatim>\<open>src/app.mjs\<close> (port 8080, one
  fixed model), the first module of \<^verbatim>\<open>src/unnamed/part_000\<close> (lines 1 to 403: rate limited,
  the model chosen by \<^verbatim>\<open>type\<close>) and its second module (lines 404 to 517: port 3000, one
  route). The third module of part_000 (lines 518 to 570) is a script that calls the model
  once on two local files; it handles no request and is not modelled. The requests are
  modelled as a handler receives them, after the rate limiter and multer have run. The
  handlers compute nothing themselves: they call libraries and the network in a
  fixed order and relay what comes back. The model keeps exactly that: a handler is a tree of
  calls to code outside the repository, and a run of the tree against any behaviour of that
  outside code gives the list of calls made and the response sent.

  Values are JavaScript's. JSON numbers are integers here: the handlers only test a number
  for being zero. A Buffer is its list of bytes. \<^verbatim>\<open>console.log\<close> and \<^verbatim>\<open>console.error\<close> are left
  out.
\<close>

datatype jsval =
    JUndefined
  | JNull
  | JBool bool
  | JNum int
  | JStr string
  | JBuf "nat list"
  | JArr "jsval list"
  | JObj "(string \<times> jsval) list"

text \<open>What \<^verbatim>\<open>if (v)\<close>, \<^verbatim>\<open>!v\<close> and \<^verbatim>\<open>v || d\<close> test.\<close>

fun truthy :: "jsval \<Rightarrow> bool" where
  "truthy JUndefined = False"
| "truthy JNull = False"
| "truthy (JBool b) = b"
| "truthy (JNum n) = (n \<noteq> 0)"
| "truthy (JStr s) = (s \<noteq> [])"
| "truthy (JBuf b) = True"
| "truthy (JArr xs) = True"
| "truthy (JObj kvs) = True"

text \<open>\<^verbatim>\<open>!a\<close>\<close>

definition js_not :: "jsval \<Rightarrow> bool" where
  "js_not a = (\<not> truthy a)"

text \<open>\<^verbatim>\<open>a || b\<close>\<close>

definition js_or :: "jsval \<Rightarrow> jsval \<Rightarrow> jsval" where
  "js_or a b = (if truthy a then a else b)"

text \<open>
  A default in a destructuring pattern, \<^verbatim>\<open>const { x = d } = obj\<close>: the default is taken only
  when the property is \<^verbatim>\<open>undefined\<close>.
\<close>

definition js_default :: "jsval \<Rightarrow> jsval \<Rightarrow> jsval" where
  "js_default a d = (if a = JUndefined then d else a)"

text \<open>
  A thrown error: its \<^verbatim>\<open>message\<close>, and the \<^verbatim>\<open>data\<close> of its \<^verbatim>\<open>response\<close> when it has one (an
  axios error for an answer outside 2xx); \<open>None\<close> when \<^verbatim>\<open>error.response\<close> is not set.
\<close>

datatype js_error = JsError (message: string) (response: "jsval option")

text \<open>
  Reading a property, \<^verbatim>\<open>v.k\<close> or \<^verbatim>\<open>v[0]\<close> (the key \<^verbatim>\<open>0\<close>), for the keys the handlers read
  (\<^verbatim>\<open>data\<close>, \<^verbatim>\<open>url\<close>, \<^verbatim>\<open>0\<close>): a TypeError on \<^verbatim>\<open>undefined\<close> and \<^verbatim>\<open>null\<close>, \<^verbatim>\<open>undefined\<close> for a
  property that is not there. The last of several equal keys of an object counts, as in
  \<^verbatim>\<open>JSON.parse\<close>.
\<close>

definition type_error :: "string \<Rightarrow> string \<Rightarrow> js_error" where
  "type_error v k =
     JsError (''Cannot read properties of '' @ v @ '' (reading '' @ [CHR 0x27] @ k @ [CHR 0x27] @ '')'') None"

fun get_prop :: "jsval \<Rightarrow> string \<Rightarrow> js_error + jsval" where
  "get_prop JUndefined k = Inl (type_error ''undefined'' k)"
| "get_prop JNull k = Inl (type_error ''null'' k)"
| "get_prop (JObj kvs) k = Inr (case map_of (rev kvs) k of Some v \<Rightarrow> v | None \<Rightarrow> JUndefined)"
| "get_prop (JArr xs) k =
     Inr (if k = ''0'' then (case xs of [] \<Rightarrow> JUndefined | x # _ \<Rightarrow> x) else JUndefined)"
| "get_prop (JStr s) k =
     Inr (if k = ''0'' then (case s of [] \<Rightarrow> JUndefined | c # _ \<Rightarrow> JStr [c]) else JUndefined)"
| "get_prop (JBuf b) k =
     Inr (if k = ''0'' then (case b of [] \<Rightarrow> JUndefined | x # _ \<Rightarrow> JNum (int x)) else JUndefined)"
| "get_prop (JBool b) k = Inr JUndefined"
| "get_prop (JNum n) k = Inr JUndefined"

text \<open>
  A request as the handlers read it. \<open>files_humanImage\<close> is \<^verbatim>\<open>req.files.humanImage[0].path\<close>
  when \<^verbatim>\<open>req.files && req.files.humanImage\<close> holds (multer stored an upload under that field),
  \<open>file_path\<close> is \<^verbatim>\<open>req.file.path\<close> of \<^verbatim>\<open>upload.single\<close>, and \<open>body\<close> is \<^verbatim>\<open>req.body\<close>, an object:
  the fields of the multipart form, or the parsed JSON.
\<close>

record request =
  files_humanImage :: "string option"
  files_garmentImage :: "string option"
  file_path :: "string option"
  body :: "(string \<times> jsval) list"

text \<open>\<^verbatim>\<open>req.body.k\<close>\<close>

definition field :: "request \<Rightarrow> string \<Rightarrow> jsval" where
  "field req k = (case map_of (rev (body req)) k of Some v \<Rightarrow> v | None \<Rightarrow> JUndefined)"

text \<open>
  A response: \<^verbatim>\<open>res.status(s).json(v)\<close> is \<open>Response s [] (Json v)\<close>; \<^verbatim>\<open>res.setHeader(h, x)\<close>
  followed by \<^verbatim>\<open>res.send(v)\<close> is \<open>Response 200 [(h, x)] (Send v)\<close>. The status is 200 unless
  \<^verbatim>\<open>res.status\<close> sets it.
\<close>

datatype resp_body = Json jsval | Send jsval

datatype response = Response (status: nat) (headers: "(string \<times> string) list") (content: resp_body)

section \<open>Calls that leave the repository\<close>

text \<open>
  Every call a handler makes to a library or to the network, with its arguments:
  \<^item> \<open>GradioClient u\<close>: \<^verbatim>\<open>client(u)\<close> of @gradio/client;
  \<^item> \<open>Axios cfg\<close>: \<^verbatim>\<open>axios(cfg)\<close> and \<^verbatim>\<open>axios.get(url, cfg)\<close>; the value it gives is the \<^verbatim>\<open>data\<close>
    of the response;
  \<^item> \<open>PipeToFile data path\<close>: \<^verbatim>\<open>data.pipe(fs.createWriteStream(path))\<close>, until the writer's
    \<^verbatim>\<open>finish\<close> or \<^verbatim>\<open>error\<close>;
  \<^item> \<open>SharpToFile input out w h\<close>: \<^verbatim>\<open>sharp(input).resize(w, h).toFile(out)\<close>;
  \<^item> \<open>SharpToBuffer input w h\<close>: \<^verbatim>\<open>sharp(input).resize(w, h).toBuffer()\<close>;
  \<^item> \<open>ReadFile path\<close>: \<^verbatim>\<open>fs.readFile(path, callback)\<close>;
  \<^item> \<open>WriteFileSync path data\<close>: \<^verbatim>\<open>fs.writeFileSync(path, data)\<close>;
  \<^item> \<open>BufferFrom v enc\<close>: \<^verbatim>\<open>Buffer.from(v, enc)\<close>; \<open>BufferToString b enc\<close>: \<^verbatim>\<open>b.toString(enc)\<close>;
  \<^item> \<open>Predict c endpoint payload\<close>: \<^verbatim>\<open>c.predict(endpoint, payload)\<close>;
  \<^item> \<open>HfImageClassification model data\<close>, \<open>HfSemanticSegmentation model data\<close>: the two
    calls of @huggingface/inference.
  An axios configuration holds what the source writes into it; \<open>cfg_timeout = None\<close> is a
  configuration without a \<^verbatim>\<open>timeout\<close> key.
\<close>

record axios_config =
  cfg_url :: jsval
  cfg_responseType :: string
  cfg_timeout :: "nat option"

datatype extcall =
    GradioClient string
  | Axios axios_config
  | PipeToFile jsval string
  | SharpToFile jsval string nat nat
  | SharpToBuffer jsval nat nat
  | ReadFile string
  | WriteFileSync string jsval
  | BufferFrom jsval string
  | BufferToString jsval string
  | Predict jsval string "jsval list"
  | HfImageClassification string jsval
  | HfSemanticSegmentation string jsval

text \<open>
  A handler is a tree: it returns, throws, or makes a call and goes on with what the call
  gave (\<open>Inr\<close> a value, \<open>Inl\<close> a thrown error or a rejected promise).
\<close>

datatype 'a prog =
    Return 'a
  | Throw js_error
  | Call extcall "js_error + jsval \<Rightarrow> 'a prog"

text \<open>Sequencing: \<^verbatim>\<open>const x = await m; f(x)\<close>. An error of \<open>m\<close> skips \<open>f\<close>.\<close>

primrec bind :: "'a prog \<Rightarrow> ('a \<Rightarrow> 'b prog) \<Rightarrow> 'b prog" where
  "bind (Return x) f = f x"
| "bind (Throw e) f = Throw e"
| "bind (Call c k) f = Call c (\<lambda>r. bind (k r) f)"

text \<open>\<^verbatim>\<open>try { p } catch (error) { h(error) }\<close>\<close>

primrec try_catch :: "'a prog \<Rightarrow> (js_error \<Rightarrow> 'a prog) \<Rightarrow> 'a prog" where
  "try_catch (Return x) h = Return x"
| "try_catch (Throw e) h = h e"
| "try_catch (Call c k) h = Call c (\<lambda>r. try_catch (k r) h)"

text \<open>A call whose error is thrown on, and the result of a function that may throw.\<close>

definition await :: "extcall \<Rightarrow> jsval prog" where
  "await c = Call c (\<lambda>r. case r of Inl e \<Rightarrow> Throw e | Inr v \<Rightarrow> Return v)"

definition lift :: "js_error + 'a \<Rightarrow> 'a prog" where
  "lift r = (case r of Inl e \<Rightarrow> Throw e | Inr v \<Rightarrow> Return v)"

text \<open>
  A run against the outside world: \<open>env c w\<close> is what the call \<open>c\<close> gives in the state \<open>w\<close> of
  the world (\<open>None\<close> when it never settles: a promise that is neither resolved nor rejected),
  and the state after it. The run gives the calls made, each with what it gave, and the
  response, \<open>None\<close> when none is ever sent: the handler waits for a call that never settles,
  or throws outside its \<^verbatim>\<open>try\<close>. The world is any function: the theorems below
  that quantify over \<open>env\<close> and \<open>w\<close> hold whatever the libraries, the file system and the network
  do.
\<close>

type_synonym event = "extcall \<times> (js_error + jsval) option"

type_synonym 'w env = "extcall \<Rightarrow> 'w \<Rightarrow> (js_error + jsval) option \<times> 'w"

primrec run :: "'a prog \<Rightarrow> 'w env \<Rightarrow> 'w \<Rightarrow> event list \<times> 'a option" where
  "run (Return x) env w = ([], Some x)"
| "run (Throw e) env w = ([], None)"
| "run (Call c k) env w =
     (case env c w of
        (None, w') \<Rightarrow> ([(c, None)], None)
      | (Some r, w') \<Rightarrow> (case run (k r) env w' of (tr, res) \<Rightarrow> ((c, Some r) # tr, res)))"

section \<open>The helper functions of the modules\<close>

text \<open>\<^verbatim>\<open>path.join(__dirname, "uploads", name)\<close>, written relative to \<^verbatim>\<open>__dirname\<close>.\<close>

definition uploads :: "string \<Rightarrow> string" where
  "uploads name = ''uploads/'' @ name"

text \<open>\<^verbatim>\<open>readLocalFile\<close> (app.mjs 29-39, part_000 33-45 and 430-440)\<close>

definition readLocalFile :: "string \<Rightarrow> jsval prog" where
  "readLocalFile filePath = await (ReadFile filePath)"

text \<open>\<^verbatim>\<open>downloadImage\<close> of app.mjs (41-60) and of the first module of part_000 (47-66)\<close>

definition downloadImage :: "jsval \<Rightarrow> string \<Rightarrow> jsval prog" where
  "downloadImage url filepath =
     bind (await (Axios \<lparr>cfg_url = url, cfg_responseType = ''stream'', cfg_timeout = Some 60000\<rparr>))
       (\<lambda>response_data. await (PipeToFile response_data filepath))"

text \<open>\<^verbatim>\<open>downloadImage\<close> of the second module of part_000 (442-453)\<close>

definition downloadImage_3000 :: "jsval \<Rightarrow> string \<Rightarrow> jsval prog" where
  "downloadImage_3000 url filepath =
     bind (await (Axios \<lparr>cfg_url = url, cfg_responseType = ''stream'', cfg_timeout = None\<rparr>))
       (\<lambda>response_data. await (PipeToFile response_data filepath))"

text \<open>\<^verbatim>\<open>resizeImage\<close> (app.mjs 62-68, part_000 68-74 and 455-459)\<close>

definition resizeImage :: "jsval \<Rightarrow> string \<Rightarrow> nat \<Rightarrow> nat \<Rightarrow> jsval prog" where
  "resizeImage inputPath outputPath width height =
     await (SharpToFile inputPath outputPath width height)"

text \<open>\<^verbatim>\<open>base64ToBuffer\<close> (app.mjs 74-76, part_000 81-84)\<close>

definition base64ToBuffer :: "jsval \<Rightarrow> jsval prog" where
  "base64ToBuffer base64 = await (BufferFrom base64 ''base64'')"

text \<open>\<^verbatim>\<open>getModelUrlByType\<close> (part_000 95-108): a \<^verbatim>\<open>switch\<close>, which compares with \<^verbatim>\<open>===\<close>.\<close>

definition getModelUrlByType :: "jsval \<Rightarrow> js_error + string" where
  "getModelUrlByType type =
     (if type = JStr ''up'' then Inr ''alexff91/FitMirrorUp''
      else if type = JStr ''down'' then Inr ''alexff91/FitMirror-Down''
      else if type = JStr ''dress'' then Inr ''alexff91/FitMirror-Dress''
      else Inl (JsError ''Invalid type parameter. Allowed values are 'up', 'down', or 'dress'.'' None))"

section \<open>The handlers of src/app.mjs\<close>

text \<open>\<^verbatim>\<open>POST /tryon\<close> (app.mjs 78-135)\<close>

definition app_tryon :: "request \<Rightarrow> response prog" where
  "app_tryon req =
     try_catch
      (bind (await (GradioClient ''alexff91/FitMirror'')) (\<lambda>appClient.
       let humanImageResizedPath = uploads ''humanImage_resized.jpg'';
           garmentImageResizedPath = uploads ''garmentImage_resized.jpg'' in
       bind (case files_humanImage req of
              Some p \<Rightarrow> Return (JStr p)
            | None \<Rightarrow>
                if truthy (field req ''humanImageURL'')
                then bind (downloadImage (field req ''humanImageURL'') (uploads ''humanImage.jpg''))
                       (\<lambda>_. Return (JStr (uploads ''humanImage.jpg'')))
                else Return JUndefined) (\<lambda>humanImagePath.
       bind (case files_garmentImage req of
              Some p \<Rightarrow> Return (JStr p)
            | None \<Rightarrow>
                if truthy (field req ''garmentImageURL'')
                then bind (downloadImage (field req ''garmentImageURL'') (uploads ''garmentImage.jpg''))
                       (\<lambda>_. Return (JStr (uploads ''garmentImage.jpg'')))
                else Return JUndefined) (\<lambda>garmentImagePath.
       bind (resizeImage humanImagePath humanImageResizedPath 400 600) (\<lambda>_.
       bind (resizeImage garmentImagePath garmentImageResizedPath 400 600) (\<lambda>_.
       bind (readLocalFile humanImageResizedPath) (\<lambda>humanImageBuffer.
       bind (readLocalFile garmentImageResizedPath) (\<lambda>garmentImageBuffer.
       let garmentDescription = js_or (field req ''garmentDescription'') (JStr ''cloth fitting the person shape'') in
       bind (await (Predict appClient ''/tryon''
             [JObj [(''background'', humanImageBuffer), (''layers'', JArr []), (''composite'', JNull)],
              garmentImageBuffer,
              garmentDescription,
              JBool True,
              JBool True,
              JNum 30,
              JNum 42])) (\<lambda>result.
       bind (lift (get_prop result ''data'')) (\<lambda>result_data.
       Return (Response 200 [] (Json (JObj [(''result'', result_data)])))))))))))))
      (\<lambda>error. Return (Response 500 []
        (Json (JObj [(''error'', case response error of Some d \<Rightarrow> d | None \<Rightarrow> JStr (message error))]))))"

text \<open>\<^verbatim>\<open>POST /tryon/base64\<close> (app.mjs 137-191)\<close>

definition app_tryon_base64 :: "request \<Rightarrow> response prog" where
  "app_tryon_base64 req =
     try_catch
      (bind (await (GradioClient ''alexff91/FitMirror'')) (\<lambda>appClient.
       let humanImageBase64 = field req ''humanImageBase64'';
           garmentImageBase64 = field req ''garmentImageBase64'';
           garmentDescription = js_default (field req ''garmentDescription'') (JStr ''cloth fitting the person shape'') in
       if js_not humanImageBase64 \<or> js_not garmentImageBase64
       then Return (Response 400 []
              (Json (JObj [(''error'', JStr ''Both humanImageBase64 and garmentImageBase64 are required.'')])))
       else
         bind (base64ToBuffer humanImageBase64) (\<lambda>humanImageBuffer.
         bind (base64ToBuffer garmentImageBase64) (\<lambda>garmentImageBuffer.
         let humanImagePath = uploads ''humanImage_from_base64.jpg'';
             garmentImagePath = uploads ''garmentImage_from_base64.jpg'' in
         bind (await (WriteFileSync humanImagePath humanImageBuffer)) (\<lambda>_.
         bind (await (WriteFileSync garmentImagePath garmentImageBuffer)) (\<lambda>_.
         let humanImageResizedPath = uploads ''humanImage_resized.jpg'';
             garmentImageResizedPath = uploads ''garmentImage_resized.jpg'' in
         bind (resizeImage (JStr humanImagePath) humanImageResizedPath 400 600) (\<lambda>_.
         bind (resizeImage (JStr garmentImagePath) garmentImageResizedPath 400 600) (\<lambda>_.
         bind (readLocalFile humanImageResizedPath) (\<lambda>resizedHumanImageBuffer.
         bind (readLocalFile garmentImageResizedPath) (\<lambda>resizedGarmentImageBuffer.
         bind (await (Predict appClient ''/tryon''
               [JObj [(''background'', resizedHumanImageBuffer), (''layers'', JArr []), (''composite'', JNull)],
                resizedGarmentImageBuffer,
                garmentDescription,
                JBool True,
                JBool True,
                JNum 30,
                JNum 42])) (\<lambda>result.
         bind (lift (get_prop result ''data'')) (\<lambda>result_data.
         bind (lift (get_prop result_data ''0'')) (\<lambda>result_data_0.
         bind (lift (get_prop result_data_0 ''url'')) (\<lambda>outputUrl.
         bind (await (Axios \<lparr>cfg_url = outputUrl, cfg_responseType = ''arraybuffer'', cfg_timeout = None\<rparr>))
           (\<lambda>outputImageResponse_data.
         bind (await (BufferFrom outputImageResponse_data ''binary'')) (\<lambda>buffer.
         bind (await (BufferToString buffer ''base64'')) (\<lambda>outputImageBase64.
         Return (Response 200 [] (Json (JObj [(''result'', outputImageBase64)]))))))))))))))))))))
      (\<lambda>error. Return (Response 500 []
        (Json (JObj [(''error'', case response error of Some d \<Rightarrow> d | None \<Rightarrow> JStr (message error))]))))"

section \<open>The handlers of the first module of src/unnamed/part_000\<close>

text \<open>\<^verbatim>\<open>POST /tryon\<close> (part_000 111-170)\<close>

definition typed_tryon :: "request \<Rightarrow> response prog" where
  "typed_tryon req =
     try_catch
      (bind (lift (getModelUrlByType (field req ''type''))) (\<lambda>modelUrl.
       bind (await (GradioClient modelUrl)) (\<lambda>appClient.
       let humanImageResizedPath = uploads ''humanImage_resized.jpg'';
           garmentImageResizedPath = uploads ''garmentImage_resized.jpg'' in
       bind (case files_humanImage req of
              Some p \<Rightarrow> Return (JStr p)
            | None \<Rightarrow>
                if truthy (field req ''humanImageURL'')
                then bind (downloadImage (field req ''humanImageURL'') (uploads ''humanImage.jpg''))
                       (\<lambda>_. Return (JStr (uploads ''humanImage.jpg'')))
                else Return JUndefined) (\<lambda>humanImagePath.
       bind (case files_garmentImage req of
              Some p \<Rightarrow> Return (JStr p)
            | None \<Rightarrow>
                if truthy (field req ''garmentImageURL'')
                then bind (downloadImage (field req ''garmentImageURL'') (uploads ''garmentImage.jpg''))
                       (\<lambda>_. Return (JStr (uploads ''garmentImage.jpg'')))
                else Return JUndefined) (\<lambda>garmentImagePath.
       bind (resizeImage humanImagePath humanImageResizedPath 400 600) (\<lambda>_.
       bind (resizeImage garmentImagePath garmentImageResizedPath 400 600) (\<lambda>_.
       bind (readLocalFile humanImageResizedPath) (\<lambda>humanImageBuffer.
       bind (readLocalFile garmentImageResizedPath) (\<lambda>garmentImageBuffer.
       let garmentDescription = js_or (field req ''garmentDescription'') (JStr ''cloth fitting the person shape'') in
       bind (await (Predict appClient ''/tryon''
             [JObj [(''background'', humanImageBuffer), (''layers'', JArr []), (''composite'', JNull)],
              garmentImageBuffer,
              garmentDescription,
              JBool True,
              JBool True,
              JNum 30,
              JNum 42])) (\<lambda>result.
       bind (lift (get_prop result ''data'')) (\<lambda>result_data.
       Return (Response 200 [] (Json (JObj [(''result'', result_data)]))))))))))))))
      (\<lambda>error. Return (Response 500 []
        (Json (JObj [(''error'', case response error of Some d \<Rightarrow> d | None \<Rightarrow> JStr (message error))]))))"

text \<open>\<^verbatim>\<open>POST /tryon/base64\<close> (part_000 173-228)\<close>

definition typed_tryon_base64 :: "request \<Rightarrow> response prog" where
  "typed_tryon_base64 req =
     try_catch
      (let type = field req ''type'';
           humanImageBase64 = field req ''humanImageBase64'';
           garmentImageBase64 = field req ''garmentImageBase64'';
           garmentDescription = js_default (field req ''garmentDescription'') (JStr ''cloth fitting the person shape'') in
       bind (lift (getModelUrlByType type)) (\<lambda>modelUrl.
       bind (await (GradioClient modelUrl)) (\<lambda>appClient.
       if js_not humanImageBase64 \<or> js_not garmentImageBase64
       then Return (Response 400 []
              (Json (JObj [(''error'', JStr ''Both humanImageBase64 and garmentImageBase64 are required.'')])))
       else
         bind (base64ToBuffer humanImageBase64) (\<lambda>humanImageBuffer.
         bind (base64ToBuffer garmentImageBase64) (\<lambda>garmentImageBuffer.
         let humanImagePath = uploads ''humanImage_from_base64.jpg'';
             garmentImagePath = uploads ''garmentImage_from_base64.jpg'' in
         bind (await (WriteFileSync humanImagePath humanImageBuffer)) (\<lambda>_.
         bind (await (WriteFileSync garmentImagePath garmentImageBuffer)) (\<lambda>_.
         let humanImageResizedPath = uploads ''humanImage_resized.jpg'';
             garmentImageResizedPath = uploads ''garmentImage_resized.jpg'' in
         bind (resizeImage (JStr humanImagePath) humanImageResizedPath 400 600) (\<lambda>_.
         bind (resizeImage (JStr garmentImagePath) garmentImageResizedPath 400 600) (\<lambda>_.
         bind (readLocalFile humanImageResizedPath) (\<lambda>resizedHumanImageBuffer.
         bind (readLocalFile garmentImageResizedPath) (\<lambda>resizedGarmentImageBuffer.
         bind (await (Predict appClient ''/tryon''
               [JObj [(''background'', resizedHumanImageBuffer), (''layers'', JArr []), (''composite'', JNull)],
                resizedGarmentImageBuffer,
                garmentDescription,
                JBool True,
                JBool True,
                JNum 30,
                JNum 42])) (\<lambda>result.
         bind (lift (get_prop result ''data'')) (\<lambda>result_data.
         bind (lift (get_prop result_data ''0'')) (\<lambda>result_data_0.
         bind (lift (get_prop result_data_0 ''url'')) (\<lambda>outputUrl.
         bind (await (Axios \<lparr>cfg_url = outputUrl, cfg_responseType = ''arraybuffer'', cfg_timeout = None\<rparr>))
           (\<lambda>outputImageResponse_data.
         bind (await (BufferFrom outputImageResponse_data ''binary'')) (\<lambda>buffer.
         bind (await (BufferToString buffer ''base64'')) (\<lambda>outputImageBase64.
         Return (Response 200 [] (Json (JObj [(''result'', outputImageBase64)])))))))))))))))))))))
      (\<lambda>error. Return (Response 500 []
        (Json (JObj [(''error'', case response error of Some d \<Rightarrow> d | None \<Rightarrow> JStr (message error))]))))"

text \<open>\<^verbatim>\<open>POST /tryon/media\<close> (part_000 231-293)\<close>

definition typed_tryon_media :: "request \<Rightarrow> response prog" where
  "typed_tryon_media req =
     try_catch
      (bind (lift (getModelUrlByType (field req ''type''))) (\<lambda>modelUrl.
       bind (await (GradioClient modelUrl)) (\<lambda>appClient.
       let humanImageResizedPath = uploads ''humanImage_resized.jpg'';
           garmentImageResizedPath = uploads ''garmentImage_resized.jpg'' in
       bind (case files_humanImage req of
              Some p \<Rightarrow> Return (JStr p)
            | None \<Rightarrow>
                if truthy (field req ''humanImageURL'')
                then bind (downloadImage (field req ''humanImageURL'') (uploads ''humanImage.jpg''))
                       (\<lambda>_. Return (JStr (uploads ''humanImage.jpg'')))
                else Return JUndefined) (\<lambda>humanImagePath.
       bind (case files_garmentImage req of
              Some p \<Rightarrow> Return (JStr p)
            | None \<Rightarrow>
                if truthy (field req ''garmentImageURL'')
                then bind (downloadImage (field req ''garmentImageURL'') (uploads ''garmentImage.jpg''))
                       (\<lambda>_. Return (JStr (uploads ''garmentImage.jpg'')))
                else Return JUndefined) (\<lambda>garmentImagePath.
       bind (resizeImage humanImagePath humanImageResizedPath 400 600) (\<lambda>_.
       bind (resizeImage garmentImagePath garmentImageResizedPath 400 600) (\<lambda>_.
       bind (readLocalFile humanImageResizedPath) (\<lambda>humanImageBuffer.
       bind (readLocalFile garmentImageResizedPath) (\<lambda>garmentImageBuffer.
       let garmentDescription = js_or (field req ''garmentDescription'') (JStr ''cloth fitting the person shape'') in
       bind (await (Predict appClient ''/tryon''
             [JObj [(''background'', humanImageBuffer), (''layers'', JArr []), (''composite'', JNull)],
              garmentImageBuffer,
              garmentDescription,
              JBool True,
              JBool True,
              JNum 30,
              JNum 42])) (\<lambda>result.
       bind (lift (get_prop result ''data'')) (\<lambda>result_data.
       bind (lift (get_prop result_data ''0'')) (\<lambda>result_data_0.
       bind (lift (get_prop result_data_0 ''url'')) (\<lambda>outputUrl.
       bind (await (Axios \<lparr>cfg_url = outputUrl, cfg_responseType = ''arraybuffer'', cfg_timeout = None\<rparr>))
         (\<lambda>outputImageResponse_data.
       Return (Response 200 [(''Content-Type'', ''image/png'')] (Send outputImageResponse_data))))))))))))))))
      (\<lambda>error. Return (Response 500 []
        (Json (JObj [(''error'', case response error of Some d \<Rightarrow> d | None \<Rightarrow> JStr (message error))]))))"

text \<open>\<^verbatim>\<open>POST /tryon/url\<close> (part_000 296-347)\<close>

definition typed_tryon_url :: "request \<Rightarrow> response prog" where
  "typed_tryon_url req =
     try_catch
      (let type = field req ''type'';
           humanImageURL = field req ''humanImageURL'';
           garmentImageURL = field req ''garmentImageURL'';
           garmentDescription = js_default (field req ''garmentDescription'') (JStr ''cloth fitting the person shape'') in
       bind (lift (getModelUrlByType type)) (\<lambda>modelUrl.
       bind (await (GradioClient modelUrl)) (\<lambda>appClient.
       if js_not humanImageURL \<or> js_not garmentImageURL
       then Return (Response 400 []
              (Json (JObj [(''error'', JStr ''Both humanImageURL and garmentImageURL are required.'')])))
       else
         let humanImagePath = uploads ''humanImage_from_url.jpg'';
             garmentImagePath = uploads ''garmentImage_from_url.jpg'' in
         bind (downloadImage humanImageURL humanImagePath) (\<lambda>_.
         bind (downloadImage garmentImageURL garmentImagePath) (\<lambda>_.
         let humanImageResizedPath = uploads ''humanImage_resized.jpg'';
             garmentImageResizedPath = uploads ''garmentImage_resized.jpg'' in
         bind (resizeImage (JStr humanImagePath) humanImageResizedPath 400 600) (\<lambda>_.
         bind (resizeImage (JStr garmentImagePath) garmentImageResizedPath 400 600) (\<lambda>_.
         bind (readLocalFile humanImageResizedPath) (\<lambda>resizedHumanImageBuffer.
         bind (readLocalFile garmentImageResizedPath) (\<lambda>resizedGarmentImageBuffer.
         bind (await (Predict appClient ''/tryon''
               [JObj [(''background'', resizedHumanImageBuffer), (''layers'', JArr []), (''composite'', JNull)],
                resizedGarmentImageBuffer,
                garmentDescription,
                JBool True,
                JBool True,
                JNum 30,
                JNum 42])) (\<lambda>result.
         bind (lift (get_prop result ''data'')) (\<lambda>result_data.
         bind (lift (get_prop result_data ''0'')) (\<lambda>result_data_0.
         bind (lift (get_prop result_data_0 ''url'')) (\<lambda>outputUrl.
         bind (await (Axios \<lparr>cfg_url = outputUrl, cfg_responseType = ''arraybuffer'', cfg_timeout = None\<rparr>))
           (\<lambda>outputImageResponse_data.
         Return (Response 200 [(''Content-Type'', ''image/png'')] (Send outputImageResponse_data))))))))))))))))
      (\<lambda>error. Return (Response 500 []
        (Json (JObj [(''error'', case response error of Some d \<Rightarrow> d | None \<Rightarrow> JStr (message error))]))))"



section \<open>The handler of the second module of src/unnamed/part_000\<close>

text \<open>\<^verbatim>\<open>POST /tryon\<close> (part_000 461-513)\<close>

definition tryon_3000 :: "request \<Rightarrow> response prog" where
  "tryon_3000 req =
     try_catch
      (bind (await (GradioClient ''alexff91/FitMirror'')) (\<lambda>appClient.
       let humanImageResizedPath = uploads ''humanImage_resized.jpg'';
           garmentImageResizedPath = uploads ''garmentImage_resized.jpg'' in
       bind (case files_humanImage req of
              Some p \<Rightarrow> Return (JStr p)
            | None \<Rightarrow>
                if truthy (field req ''humanImageURL'')
                then bind (downloadImage_3000 (field req ''humanImageURL'') (uploads ''humanImage.jpg''))
                       (\<lambda>_. Return (JStr (uploads ''humanImage.jpg'')))
                else Return JUndefined) (\<lambda>humanImagePath.
       bind (case files_garmentImage req of
              Some p \<Rightarrow> Return (JStr p)
            | None \<Rightarrow>
                if truthy (field req ''garmentImageURL'')
                then bind (downloadImage_3000 (field req ''garmentImageURL'') (uploads ''garmentImage.jpg''))
                       (\<lambda>_. Return (JStr (uploads ''garmentImage.jpg'')))
                else Return JUndefined) (\<lambda>garmentImagePath.
       bind (resizeImage humanImagePath humanImageResizedPath 400 600) (\<lambda>_.
       bind (resizeImage garmentImagePath garmentImageResizedPath 400 600) (\<lambda>_.
       bind (readLocalFile humanImageResizedPath) (\<lambda>humanImage.
       bind (readLocalFile garmentImageResizedPath) (\<lambda>garmentImage.
       let garmentDescription = js_or (field req ''garmentDescription'') (JStr ''cloth fitting the person shape'') in
       bind (await (Predict appClient ''/tryon''
             [JObj [(''background'', humanImage), (''layers'', JArr []), (''composite'', JNull)],
              garmentImage,
              garmentDescription,
              JBool True,
              JBool True,
              JNum 30,
              JNum 42])) (\<lambda>result.
       bind (lift (get_prop result ''data'')) (\<lambda>result_data.
       Return (Response 200 [] (Json (JObj [(''result'', result_data)])))))))))))))
      (\<lambda>error. Return (Response 500 [] (Json (JObj [(''error'', JStr (message error))]))))"

section \<open>Two requests at once\<close>

text \<open>
  Node runs one handler until it waits for a call, and may run another handler meanwhile.
  A task is a handler that is under way: what is left of it (\<open>None\<close> once it waits for a
  call that never settles) and the calls it has made. \<open>advance\<close> lets the task's next call
  happen; \<open>interleave\<close> runs two tasks on one world, the schedule saying whose call comes
  next (\<open>True\<close>: the first task's). Each call takes effect at one instant, so these are some
  of the orders in which Node can run two requests, not all of them. A schedule may change
  task after any call; Node does so only where the handler awaits (\<^verbatim>\<open>client\<close>, \<^verbatim>\<open>axios\<close>, the
  pipe, \<^verbatim>\<open>sharp\<close>, \<^verbatim>\<open>readLocalFile\<close>, \<^verbatim>\<open>predict\<close>).
\<close>

type_synonym 'a task = "'a prog option \<times> event list"

definition start :: "'a prog \<Rightarrow> 'a task" where
  "start p = (Some p, [])"

fun advance :: "'w env \<Rightarrow> 'a task \<Rightarrow> 'w \<Rightarrow> 'a task \<times> 'w" where
  "advance env (Some (Call c k), tr) w =
     (case env c w of
        (Some r, w') \<Rightarrow> ((Some (k r), tr @ [(c, Some r)]), w')
      | (None, w') \<Rightarrow> ((None, tr @ [(c, None)]), w'))"
| "advance env t w = (t, w)"

fun interleave :: "'w env \<Rightarrow> bool list \<Rightarrow> 'a task \<Rightarrow> 'a task \<Rightarrow> 'w \<Rightarrow> 'a task \<times> 'a task" where
  "interleave env [] a b w = (a, b)"
| "interleave env (first # schedule) a b w =
     (if first
      then (case advance env a w of (a', w') \<Rightarrow> interleave env schedule a' b w')
      else (case advance env b w of (b', w') \<Rightarrow> interleave env schedule a b' w'))"

fun responded :: "'a task \<Rightarrow> 'a option" where
  "responded (Some (Return x), tr) = Some x"
| "responded t = None"

section \<open>A world to run the handlers in\<close>

text \<open>
  The theorems about every world are witnessed, and the defects shown, in one world that
  behaves as the libraries are documented to: files are stored and read back, \<^verbatim>\<open>sharp\<close>
  reads its input file and writes its output file and rejects an input that is \<^verbatim>\<open>undefined\<close>,
  axios rejects an answer outside 2xx, gives up after its \<^verbatim>\<open>timeout\<close> when it has one and
  waits without end when it has none, Buffers convert to and from base64, and the model
  answers a prediction with the URL of a new image, which stands for the composite: the
  bytes of the human image followed by those of the garment. Resizing keeps the bytes, and
  the messages of the errors are short stand-ins. It is one world among all those the
  theorems quantify over; nothing but witnesses and evaluations at a concrete input rests on
  it.
\<close>

record site =
  latency :: "nat option"
  http_status :: nat
  content :: "nat list"

record world =
  files :: "(string \<times> jsval) list"
  sites :: "(string \<times> site) list"
  predictions :: nat

definition base64_alphabet :: string where
  "base64_alphabet = ''ABCDEFGHIJKLMNOPQRSTUVWXYZabcdefghijklmnopqrstuvwxyz0123456789+/''"

definition base64_digit :: "nat \<Rightarrow> char" where
  "base64_digit n = base64_alphabet ! (n mod 64)"

fun base64_encode :: "nat list \<Rightarrow> string" where
  "base64_encode (a # b # c # bytes) =
     [base64_digit (a div 4), base64_digit ((a mod 4) * 16 + b div 16),
      base64_digit ((b mod 16) * 4 + c div 64), base64_digit (c mod 64)] @ base64_encode bytes"
| "base64_encode [a, b] =
     [base64_digit (a div 4), base64_digit ((a mod 4) * 16 + b div 16),
      base64_digit ((b mod 16) * 4), CHR ''='']"
| "base64_encode [a] = [base64_digit (a div 4), base64_digit ((a mod 4) * 16), CHR ''='', CHR ''='']"
| "base64_encode [] = []"

fun base64_value :: "string \<Rightarrow> char \<Rightarrow> nat option" where
  "base64_value [] c = None"
| "base64_value (d # ds) c = (if c = d then Some 0 else map_option Suc (base64_value ds c))"

fun base64_bytes :: "nat list \<Rightarrow> nat list" where
  "base64_bytes (a # b # c # d # digits) =
     [a * 4 + b div 16, (b mod 16) * 16 + c div 4, (c mod 4) * 64 + d] @ base64_bytes digits"
| "base64_bytes [a, b, c] = [a * 4 + b div 16, (b mod 16) * 16 + c div 4]"
| "base64_bytes [a, b] = [a * 4 + b div 16]"
| "base64_bytes digits = []"

definition base64_decode :: "string \<Rightarrow> nat list" where
  "base64_decode s = base64_bytes (List.map_filter (base64_value base64_alphabet) s)"

definition store :: "string \<Rightarrow> jsval \<Rightarrow> world \<Rightarrow> world" where
  "store path data w = w\<lparr>files := (path, data) # files w\<rparr>"

definition sharp_input :: "jsval \<Rightarrow> world \<Rightarrow> (js_error + nat list) option" where
  "sharp_input input w =
     (case input of
        JStr path \<Rightarrow>
          (case map_of (files w) path of
             Some (JBuf pixels) \<Rightarrow> Some (Inr pixels)
           | _ \<Rightarrow> Some (Inl (JsError ''Input file is missing'' None)))
      | JBuf pixels \<Rightarrow> Some (Inr pixels)
      | JUndefined \<Rightarrow> Some (Inl (JsError ''Invalid input'' None))
      | _ \<Rightarrow> Some (Inl (JsError ''Unsupported input'' None)))"

definition axios_answer :: "axios_config \<Rightarrow> world \<Rightarrow> (js_error + jsval) option" where
  "axios_answer cfg w =
     (case cfg_url cfg of
        JStr u \<Rightarrow>
          (case map_of (sites w) u of
             None \<Rightarrow> Some (Inl (JsError ''getaddrinfo ENOTFOUND'' None))
           | Some s \<Rightarrow>
               (case (latency s, cfg_timeout cfg) of
                  (None, None) \<Rightarrow> None
                | (None, Some t) \<Rightarrow> Some (Inl (JsError ''timeout exceeded'' None))
                | (Some ms, limit) \<Rightarrow>
                    if (case limit of Some t \<Rightarrow> t < ms | None \<Rightarrow> False)
                    then Some (Inl (JsError ''timeout exceeded'' None))
                    else if 200 \<le> http_status s \<and> http_status s < 300
                    then Some (Inr (JBuf (content s)))
                    else Some (Inl (JsError ''Request failed'' (Some (JBuf (content s)))))))
      | _ \<Rightarrow> Some (Inl (JsError ''Invalid URL'' None)))"

definition output_url :: "nat \<Rightarrow> string" where
  "output_url n = ''https://space.example/file=out'' @ replicate n (CHR ''+'') @ ''.png''"

definition predict_answer :: "jsval list \<Rightarrow> world \<Rightarrow> (js_error + jsval) option \<times> world" where
  "predict_answer args w =
     (case args of
        editor # JBuf garment # rest \<Rightarrow>
          (case get_prop editor ''background'' of
             Inr (JBuf human) \<Rightarrow>
               (Some (Inr (JObj [(''data'', JArr [JObj [(''url'', JStr (output_url (predictions w)))]])])),
                w\<lparr>sites := (output_url (predictions w),
                              \<lparr>latency = Some 100, http_status = 200, content = human @ garment\<rparr>) # sites w,
                  predictions := Suc (predictions w)\<rparr>)
           | _ \<Rightarrow> (Some (Inl (JsError ''Invalid image'' None)), w))
      | _ \<Rightarrow> (Some (Inl (JsError ''Invalid payload'' None)), w))"

fun node :: "world env" where
  "node (GradioClient u) w = (Some (Inr (JStr u)), w)"
| "node (Axios cfg) w = (axios_answer cfg w, w)"
| "node (PipeToFile data path) w = (Some (Inr JUndefined), store path data w)"
| "node (WriteFileSync path data) w = (Some (Inr JUndefined), store path data w)"
| "node (SharpToFile input out width height) w =
     (case sharp_input input w of
        None \<Rightarrow> (None, w)
      | Some (Inl e) \<Rightarrow> (Some (Inl e), w)
      | Some (Inr pixels) \<Rightarrow> (Some (Inr (JObj [(''width'', JNum (int width)), (''height'', JNum (int height))])),
                               store out (JBuf pixels) w))"
| "node (SharpToBuffer input width height) w =
     (case sharp_input input w of
        None \<Rightarrow> (None, w)
      | Some (Inl e) \<Rightarrow> (Some (Inl e), w)
      | Some (Inr pixels) \<Rightarrow> (Some (Inr (JBuf pixels)), w))"
| "node (ReadFile path) w =
     (case map_of (files w) path of
        Some data \<Rightarrow> (Some (Inr data), w)
      | None \<Rightarrow> (Some (Inl (JsError ''ENOENT: no such file or directory'' None)), w))"
| "node (BufferFrom v enc) w =
     (case v of
        JBuf bytes \<Rightarrow> (Some (Inr (JBuf bytes)), w)
      | JStr s \<Rightarrow> (Some (Inr (JBuf (if enc = ''base64'' then base64_decode s else map of_char s))), w)
      | _ \<Rightarrow> (Some (Inl (JsError ''The first argument must be of type string or an instance of Buffer'' None)), w))"
| "node (BufferToString v enc) w =
     (case v of
        JBuf bytes \<Rightarrow> (Some (Inr (JStr (if enc = ''base64'' then base64_encode bytes else map char_of bytes))), w)
      | _ \<Rightarrow> (Some (Inl (JsError ''toString of a value that is no Buffer'' None)), w))"
| "node (Predict c endpoint args) w = predict_answer args w"
| "node (HfImageClassification model data) w =
     (Some (Inr (JArr [JObj [(''label'', JStr ''jersey''), (''score'', JNum 1)]])), w)"
| "node (HfSemanticSegmentation model data) w =
     (Some (Inr (JArr [JObj [(''label'', JStr ''person''), (''score'', JNum 1)]])), w)"

text \<open>
  Two people have uploaded their pictures (multer gave each upload a name of its own), and
  three sites serve pictures: one at once, one after 70 seconds, one never.
\<close>

definition world0 :: world where
  "world0 =
     \<lparr>files = [(''uploads/a1'', JBuf [1, 1, 1]), (''uploads/a2'', JBuf [2, 2]),
               (''uploads/b1'', JBuf [7, 7, 7]), (''uploads/b2'', JBuf [8, 8])],
      sites = [(''https://img.example/human.jpg'', \<lparr>latency = Some 50, http_status = 200, content = [3, 3]\<rparr>),
               (''https://img.example/garment.jpg'', \<lparr>latency = Some 50, http_status = 200, content = [4]\<rparr>),
               (''https://slow.example/human.jpg'', \<lparr>latency = Some 70000, http_status = 200, content = [5]\<rparr>),
               (''https://silent.example/human.jpg'', \<lparr>latency = None, http_status = 200, content = []\<rparr>)],
      predictions = 0\<rparr>"

definition request0 :: request where
  "request0 = \<lparr>files_humanImage = None, files_garmentImage = None, file_path = None, body = []\<rparr>"

definition offline :: "world env" where
  "offline c w =
     (case c of
        Axios cfg \<Rightarrow>
          if cfg_responseType cfg = ''arraybuffer''
          then (Some (Inl (JsError ''socket hang up'' None)), w)
          else node c w
      | _ \<Rightarrow> node c w)"

text \<open>The requests the witnesses use.\<close>

definition request_a :: request where
  "request_a =
     \<lparr>files_humanImage = Some ''uploads/a1'', files_garmentImage = Some ''uploads/a2'',
      file_path = None, body = [(''type'', JStr ''up'')]\<rparr>"

definition request_b :: request where
  "request_b =
     \<lparr>files_humanImage = Some ''uploads/b1'', files_garmentImage = Some ''uploads/b2'',
      file_path = None, body = [(''type'', JStr ''dress'')]\<rparr>"

definition request_shirt :: request where
  "request_shirt =
     \<lparr>files_humanImage = Some ''uploads/a1'', files_garmentImage = Some ''uploads/a2'',
      file_path = None, body = [(''type'', JStr ''shirt'')]\<rparr>"

definition request_both :: request where
  "request_both =
     \<lparr>files_humanImage = Some ''uploads/a1'', files_garmentImage = None, file_path = None,
      body = [(''type'', JStr ''up''),
              (''humanImageURL'', JStr ''https://img.example/human.jpg''),
              (''garmentImageURL'', JStr ''https://img.example/garment.jpg'')]\<rparr>"

definition request_urls :: request where
  "request_urls =
     \<lparr>files_humanImage = None, files_garmentImage = None, file_path = None,
      body = [(''humanImageURL'', JStr ''https://img.example/human.jpg''),
              (''garmentImageURL'', JStr ''https://img.example/garment.jpg'')]\<rparr>"

definition request_silent :: request where
  "request_silent =
     \<lparr>files_humanImage = None, files_garmentImage = Some ''uploads/a2'', file_path = None,
      body = [(''humanImageURL'', JStr ''https://silent.example/human.jpg'')]\<rparr>"

definition request_base64 :: request where
  "request_base64 =
     \<lparr>files_humanImage = None, files_garmentImage = None, file_path = None,
      body = [(''type'', JStr ''up''),
              (''humanImageBase64'', JStr ''TWFu''),
              (''garmentImageBase64'', JStr ''TWE=''),
              (''garmentDescription'', JStr [])]\<rparr>"

definition request_wardrobe :: request where
  "request_wardrobe =
     \<lparr>files_humanImage = None, files_garmentImage = None, file_path = Some ''uploads/a2'', body = []\<rparr>"

section \<open>What the claims say of a run\<close>

text \<open>
  The properties are stated on the list of calls of a run. They are written with functions
  that go through the list once (\<open>filter\<close>, \<open>takeWhile\<close>, \<open>dropWhile\<close>, \<open>list_all\<close>), so that they
  can be evaluated on a run.
\<close>

definition is_predict :: "extcall \<Rightarrow> bool" where
  "is_predict c = (case c of Predict appClient endpoint args \<Rightarrow> True | _ \<Rightarrow> False)"

definition predict_calls :: "event list \<Rightarrow> extcall list" where
  "predict_calls tr = filter is_predict (map fst tr)"





definition from_predict :: "event list \<Rightarrow> event list" where
  "from_predict tr = dropWhile (\<lambda>ev. \<not> is_predict (fst ev)) tr"






text \<open>
  \<^verbatim>\<open>result.data[0].url\<close>; the response of the catch; and what follows a prediction that gave a
  result with such a URL: the fetch of the URL, then the response for an image that was
  fetched (\<open>relayed\<close>) or the 500 for a fetch that threw.
\<close>

definition result_data_0_url :: "jsval \<Rightarrow> js_error + jsval" where
  "result_data_0_url result =
     (case get_prop result ''data'' of
        Inl e \<Rightarrow> Inl e
      | Inr result_data \<Rightarrow>
          (case get_prop result_data ''0'' of
             Inl e \<Rightarrow> Inl e
           | Inr result_data_0 \<Rightarrow> get_prop result_data_0 ''url''))"

definition error_500 :: "js_error \<Rightarrow> response" where
  "error_500 e =
     Response 500 [] (Json (JObj [(''error'', case response e of Some d \<Rightarrow> d | None \<Rightarrow> JStr (message e))]))"

definition relayed :: "bool \<Rightarrow> jsval \<Rightarrow> event list \<Rightarrow> response option \<Rightarrow> bool" where
  "relayed as_base64 data after res =
     (if as_base64
      then (\<exists>converted after'. after = (BufferFrom data ''binary'', converted) # after' \<and>
              (\<forall>buffer. converted = Some (Inr buffer) \<longrightarrow>
                 (\<exists>encoded. after' = [(BufferToString buffer ''base64'', encoded)] \<and>
                    (\<forall>s. encoded = Some (Inr s) \<longrightarrow>
                       res = Some (Response 200 [] (Json (JObj [(''result'', s)])))))))
      else after = [] \<and> res = Some (Response 200 [(''Content-Type'', ''image/png'')] (Send data)))"

definition relay_spec :: "bool \<Rightarrow> event list \<Rightarrow> response option \<Rightarrow> bool" where
  "relay_spec as_base64 tr res =
     (\<forall>c result rest u.
        from_predict tr = (c, Some (Inr result)) # rest \<and> result_data_0_url result = Inr u \<longrightarrow>
          (\<exists>fetched after.
             rest = (Axios \<lparr>cfg_url = u, cfg_responseType = ''arraybuffer'', cfg_timeout = None\<rparr>, fetched) # after \<and>
             (\<forall>e. fetched = Some (Inl e) \<longrightarrow> after = [] \<and> res = Some (error_500 e)) \<and>
             (\<forall>data. fetched = Some (Inr data) \<longrightarrow> relayed as_base64 data after res)))"





text \<open>The axios configurations of the downloads.\<close>

definition stream_configs :: "event list \<Rightarrow> axios_config list" where
  "stream_configs tr =
     List.map_filter
       (\<lambda>c. case c of Axios cfg \<Rightarrow> if cfg_responseType cfg = ''stream'' then Some cfg else None
             | _ \<Rightarrow> None)
       (map fst tr)"

section \<open>Reasoning about every run\<close>

text \<open>
  \<open>all_runs p P\<close>: \<open>P\<close> holds of the calls and the response of \<open>p\<close> whatever each call gives.
  It is how the theorems about every world are proved: \<open>all_runs_run\<close> below.
\<close>

primrec all_runs :: "'a prog \<Rightarrow> (event list \<Rightarrow> 'a option \<Rightarrow> bool) \<Rightarrow> bool" where
  "all_runs (Return x) P = P [] (Some x)"
| "all_runs (Throw e) P = P [] None"
| "all_runs (Call c k) P =
     (P [(c, None)] None \<and> (\<forall>r. all_runs (k r) (\<lambda>tr res. P ((c, Some r) # tr) res)))"

lemma all_runs_run: "all_runs p P \<Longrightarrow> P (fst (run p env w)) (snd (run p env w))"
proof (induction p arbitrary: P w)
  case (Call c k)
  show ?case
  proof (cases "env c w")
    case (Pair outcome w')
    show ?thesis
    proof (cases outcome)
      case None
      with Pair Call.prems show ?thesis by simp
    next
      case (Some r)
      from Call.prems have "all_runs (k r) (\<lambda>tr res. P ((c, Some r) # tr) res)" by simp
      from Call.IH[OF _ this, of w'] Pair Some show ?thesis
        by (simp add: split_beta)
    qed
  qed
qed simp_all

lemma all_runs_Call:
  "all_runs (Call c k) P =
     (P [(c, None)] None \<and>
      (\<forall>e. all_runs (k (Inl e)) (\<lambda>tr res. P ((c, Some (Inl e)) # tr) res)) \<and>
      (\<forall>v. all_runs (k (Inr v)) (\<lambda>tr res. P ((c, Some (Inr v)) # tr) res)))"
  by (auto simp: split_sum_all)

declare all_runs.simps(3) [simp del]

text \<open>\<open>bind\<close>, \<open>try_catch\<close> and \<open>all_runs\<close> go into the branches of a case distinction.\<close>

lemma bind_sum: "bind (case_sum A B r) f = case_sum (\<lambda>e. bind (A e) f) (\<lambda>v. bind (B v) f) r"
  by (cases r) simp_all

lemma bind_option: "bind (case_option A B r) f = case_option (bind A f) (\<lambda>v. bind (B v) f) r"
  by (cases r) simp_all

lemma bind_if: "bind (if b then A else B) f = (if b then bind A f else bind B f)"
  by simp

lemma try_sum:
  "try_catch (case_sum A B r) h = case_sum (\<lambda>e. try_catch (A e) h) (\<lambda>v. try_catch (B v) h) r"
  by (cases r) simp_all

lemma try_option:
  "try_catch (case_option A B r) h = case_option (try_catch A h) (\<lambda>v. try_catch (B v) h) r"
  by (cases r) simp_all

lemma try_if: "try_catch (if b then A else B) h = (if b then try_catch A h else try_catch B h)"
  by simp

lemma all_sum:
  "all_runs (case_sum A B r) P = case_sum (\<lambda>e. all_runs (A e) P) (\<lambda>v. all_runs (B v) P) r"
  by (cases r) simp_all

lemma all_option:
  "all_runs (case_option A B r) P = case_option (all_runs A P) (\<lambda>v. all_runs (B v) P) r"
  by (cases r) simp_all

lemma all_if: "all_runs (if b then A else B) P = (if b then all_runs A P else all_runs B P)"
  by simp

lemma sum_bool: "case_sum A B r = ((\<forall>e. r = Inl e \<longrightarrow> A e) \<and> (\<forall>v. r = Inr v \<longrightarrow> B v))"
  by (cases r) simp_all

lemma option_bool: "case_option A B r = ((r = None \<longrightarrow> A) \<and> (\<forall>v. r = Some v \<longrightarrow> B v))"
  by (cases r) simp_all

lemmas helper_defs = await_def lift_def downloadImage_def downloadImage_3000_def resizeImage_def
  readLocalFile_def base64ToBuffer_def uploads_def js_not_def Let_def

lemmas branch_simps = bind_sum bind_option bind_if try_sum try_option try_if

lemmas prog_simps = all_runs_Call helper_defs branch_simps all_sum all_option all_if sum_bool option_bool

lemmas world_simps = helper_defs branch_simps field_def js_or_def js_default_def getModelUrlByType_def
  world0_def request0_def request_a_def request_b_def request_shirt_def request_both_def
  request_urls_def request_silent_def request_base64_def request_wardrobe_def
  store_def sharp_input_def axios_answer_def output_url_def predict_answer_def offline_def
  base64_decode_def base64_digit_def base64_alphabet_def List.map_filter_simps start_def



lemmas relay_simps = relay_spec_def relayed_def from_predict_def is_predict_def result_data_0_url_def
  error_500_def


section \<open>One prediction, with the fixed payload\<close>










section \<open>An invalid type\<close>

text \<open>
  C2. In the module that has the \<^verbatim>\<open>type\<close> parameter, a request whose \<^verbatim>\<open>type\<close> is absent or is not
  one of the strings up, down, dress makes each of the four handlers respond 500 with the JSON
  body {error: "Invalid type parameter. Allowed values are 'up', 'down', or 'dress'."} without
  one call: no client is opened, no image is fetched, written, resized or read, nothing is
  predicted.
\<close>

theorem invalid_type_is_rejected:
  assumes "field req ''type'' \<notin> {JStr ''up'', JStr ''down'', JStr ''dress''}"
  shows "run (typed_tryon req) env w =
           ([], Some (Response 500 [] (Json (JObj [(''error'',
              JStr ''Invalid type parameter. Allowed values are 'up', 'down', or 'dress'.'')])))) \<and>
         run (typed_tryon_base64 req) env w =
           ([], Some (Response 500 [] (Json (JObj [(''error'',
              JStr ''Invalid type parameter. Allowed values are 'up', 'down', or 'dress'.'')])))) \<and>
         run (typed_tryon_media req) env w =
           ([], Some (Response 500 [] (Json (JObj [(''error'',
              JStr ''Invalid type parameter. Allowed values are 'up', 'down', or 'dress'.'')])))) \<and>
         run (typed_tryon_url req) env w =
           ([], Some (Response 500 [] (Json (JObj [(''error'',
              JStr ''Invalid type parameter. Allowed values are 'up', 'down', or 'dress'.'')]))))"
  using assms
  by (simp add: typed_tryon_def typed_tryon_base64_def typed_tryon_media_def typed_tryon_url_def
      getModelUrlByType_def lift_def Let_def)

text \<open>The type shirt, and no type at all.\<close>

theorem invalid_type_is_rejected_witness:
  "field request_shirt ''type'' \<notin> {JStr ''up'', JStr ''down'', JStr ''dress''} \<and>
   run (typed_tryon request_shirt) node world0 =
     ([], Some (Response 500 [] (Json (JObj [(''error'',
        JStr ''Invalid type parameter. Allowed values are 'up', 'down', or 'dress'.'')])))) \<and>
   field request0 ''type'' = JUndefined \<and>
   run (typed_tryon_url request0) node world0 =
     ([], Some (Response 500 [] (Json (JObj [(''error'',
        JStr ''Invalid type parameter. Allowed values are 'up', 'down', or 'dress'.'')]))))"
proof -
  have a: "field request_shirt ''type'' \<notin> {JStr ''up'', JStr ''down'', JStr ''dress''}"
    by (simp add: field_def request_shirt_def)
  have b: "field request0 ''type'' \<notin> {JStr ''up'', JStr ''down'', JStr ''dress''}"
    by (simp add: field_def request0_def)
  have c: "field request0 ''type'' = JUndefined"
    by (simp add: field_def request0_def)
  from a c invalid_type_is_rejected[OF a, of node world0] invalid_type_is_rejected[OF b, of node world0]
  show ?thesis by simp
qed

section \<open>A missing image\<close>

lemma no_400_app_tryon: "all_runs (app_tryon req) (\<lambda>tr res. map_option status res \<noteq> Some 400)"
  unfolding app_tryon_def by (simp add: prog_simps)

lemma no_400_typed_tryon: "all_runs (typed_tryon req) (\<lambda>tr res. map_option status res \<noteq> Some 400)"
  unfolding typed_tryon_def by (simp add: prog_simps)

lemma no_400_typed_tryon_media:
  "all_runs (typed_tryon_media req) (\<lambda>tr res. map_option status res \<noteq> Some 400)"
  unfolding typed_tryon_media_def by (simp add: prog_simps)

lemma no_400_tryon_3000: "all_runs (tryon_3000 req) (\<lambda>tr res. map_option status res \<noteq> Some 400)"
  unfolding tryon_3000_def by (simp add: prog_simps)

text \<open>
  C3. The multipart handlers do not check that an image slot has a source. A request to
  \<^verbatim>\<open>/tryon\<close> of app.mjs with no upload and no URL opens the client and calls \<^verbatim>\<open>sharp\<close> on
  \<^verbatim>\<open>undefined\<close>; in \<open>world0\<close>, where \<^verbatim>\<open>sharp\<close> rejects that input, the response is 500. In no
  world and for no request do \<^verbatim>\<open>/tryon\<close> (three modules) and \<^verbatim>\<open>/tryon/media\<close> respond 400, while
  \<^verbatim>\<open>/tryon/base64\<close> of app.mjs, for the same request, does check and responds 400, after it
  has opened the client.
\<close>

theorem missing_image_is_not_rejected:
  "run (app_tryon request0) node world0 =
     ([(GradioClient ''alexff91/FitMirror'', Some (Inr (JStr ''alexff91/FitMirror''))),
       (SharpToFile JUndefined ''uploads/humanImage_resized.jpg'' 400 600,
        Some (Inl (JsError ''Invalid input'' None)))],
      Some (Response 500 [] (Json (JObj [(''error'', JStr ''Invalid input'')])))) \<and>
   map_option status (snd (run (app_tryon req) env w)) \<noteq> Some 400 \<and>
   map_option status (snd (run (typed_tryon req) env w)) \<noteq> Some 400 \<and>
   map_option status (snd (run (typed_tryon_media req) env w)) \<noteq> Some 400 \<and>
   map_option status (snd (run (tryon_3000 req) env w)) \<noteq> Some 400 \<and>
   run (app_tryon_base64 request0) node world0 =
     ([(GradioClient ''alexff91/FitMirror'', Some (Inr (JStr ''alexff91/FitMirror'')))],
      Some (Response 400 []
        (Json (JObj [(''error'', JStr ''Both humanImageBase64 and garmentImageBase64 are required.'')]))))"
proof -
  have a: "run (app_tryon request0) node world0 =
     ([(GradioClient ''alexff91/FitMirror'', Some (Inr (JStr ''alexff91/FitMirror''))),
       (SharpToFile JUndefined ''uploads/humanImage_resized.jpg'' 400 600,
        Some (Inl (JsError ''Invalid input'' None)))],
      Some (Response 500 [] (Json (JObj [(''error'', JStr ''Invalid input'')]))))"
    unfolding app_tryon_def by (simp add: world_simps)
  have b: "run (app_tryon_base64 request0) node world0 =
     ([(GradioClient ''alexff91/FitMirror'', Some (Inr (JStr ''alexff91/FitMirror'')))],
      Some (Response 400 []
        (Json (JObj [(''error'', JStr ''Both humanImageBase64 and garmentImageBase64 are required.'')]))))"
    unfolding app_tryon_base64_def by (simp add: world_simps)
  from a b all_runs_run[OF no_400_app_tryon, of req env w] all_runs_run[OF no_400_typed_tryon, of req env w]
    all_runs_run[OF no_400_typed_tryon_media, of req env w] all_runs_run[OF no_400_tryon_3000, of req env w]
  show ?thesis by simp
qed

section \<open>The resolutions\<close>












section \<open>The relay of the result\<close>

lemma relay_app_tryon_base64: "all_runs (app_tryon_base64 req) (relay_spec True)"
  unfolding app_tryon_base64_def by (simp add: prog_simps relay_simps)

lemma relay_typed_tryon_base64: "all_runs (typed_tryon_base64 req) (relay_spec True)"
  unfolding typed_tryon_base64_def by (simp add: prog_simps relay_simps)

lemma relay_typed_tryon_media: "all_runs (typed_tryon_media req) (relay_spec False)"
  unfolding typed_tryon_media_def by (simp add: prog_simps relay_simps)

text \<open>
  C5. Whatever the request and the world: when \<^verbatim>\<open>predict\<close> of \<^verbatim>\<open>/tryon/base64\<close> (both modules) or
  \<^verbatim>\<open>/tryon/media\<close> has given a result whose \<^verbatim>\<open>data[0].url\<close> can be read, the next call is
  \<^verbatim>\<open>axios.get\<close> of that URL as an arraybuffer. If it throws, nothing more is called and the
  response is 500 with the JSON body {error: ...} of the catch. If it gives data,
  \<^verbatim>\<open>/tryon/media\<close> calls nothing more and sends the data with Content-Type image/png, and
  \<^verbatim>\<open>/tryon/base64\<close> converts it with \<^verbatim>\<open>Buffer.from(data, 'binary').toString('base64')\<close> and
  responds {result: that string}.
\<close>

theorem result_is_relayed:
  "relay_spec True (fst (run (app_tryon_base64 req) env w)) (snd (run (app_tryon_base64 req) env w)) \<and>
   relay_spec True (fst (run (typed_tryon_base64 req) env w)) (snd (run (typed_tryon_base64 req) env w)) \<and>
   relay_spec False (fst (run (typed_tryon_media req) env w)) (snd (run (typed_tryon_media req) env w))"
  by (simp add: all_runs_run[OF relay_app_tryon_base64] all_runs_run[OF relay_typed_tryon_base64]
      all_runs_run[OF relay_typed_tryon_media])

text \<open>
  Two base64 images whose result is fetched and encoded, and two uploads in a world where the
  result cannot be fetched.
\<close>

theorem result_is_relayed_witness:
  "relay_spec True (fst (run (typed_tryon_base64 request_base64) node world0))
     (snd (run (typed_tryon_base64 request_base64) node world0)) \<and>
   from_predict (fst (run (typed_tryon_base64 request_base64) node world0)) =
     [(Predict (JStr ''alexff91/FitMirrorUp'') ''/tryon''
        [JObj [(''background'', JBuf [77, 97, 110]), (''layers'', JArr []), (''composite'', JNull)],
         JBuf [77, 97], JStr [], JBool True, JBool True, JNum 30, JNum 42],
       Some (Inr (JObj [(''data'', JArr [JObj [(''url'', JStr ''https://space.example/file=out.png'')]])]))),
      (Axios \<lparr>cfg_url = JStr ''https://space.example/file=out.png'', cfg_responseType = ''arraybuffer'',
               cfg_timeout = None\<rparr>,
       Some (Inr (JBuf [77, 97, 110, 77, 97]))),
      (BufferFrom (JBuf [77, 97, 110, 77, 97]) ''binary'', Some (Inr (JBuf [77, 97, 110, 77, 97]))),
      (BufferToString (JBuf [77, 97, 110, 77, 97]) ''base64'', Some (Inr (JStr ''TWFuTWE='')))] \<and>
   result_data_0_url (JObj [(''data'', JArr [JObj [(''url'', JStr ''https://space.example/file=out.png'')]])]) =
     Inr (JStr ''https://space.example/file=out.png'') \<and>
   snd (run (typed_tryon_base64 request_base64) node world0) =
     Some (Response 200 [] (Json (JObj [(''result'', JStr ''TWFuTWE='')]))) \<and>
   relay_spec False (fst (run (typed_tryon_media request_a) offline world0))
     (snd (run (typed_tryon_media request_a) offline world0)) \<and>
   from_predict (fst (run (typed_tryon_media request_a) offline world0)) =
     [(Predict (JStr ''alexff91/FitMirrorUp'') ''/tryon''
        [JObj [(''background'', JBuf [1, 1, 1]), (''layers'', JArr []), (''composite'', JNull)],
         JBuf [2, 2], JStr ''cloth fitting the person shape'', JBool True, JBool True, JNum 30, JNum 42],
       Some (Inr (JObj [(''data'', JArr [JObj [(''url'', JStr ''https://space.example/file=out.png'')]])]))),
      (Axios \<lparr>cfg_url = JStr ''https://space.example/file=out.png'', cfg_responseType = ''arraybuffer'',
               cfg_timeout = None\<rparr>,
       Some (Inl (JsError ''socket hang up'' None)))] \<and>
   snd (run (typed_tryon_media request_a) offline world0) =
     Some (Response 500 [] (Json (JObj [(''error'', JStr ''socket hang up'')])))"
proof -
  have a: "run (typed_tryon_base64 request_base64) node world0 =
    ([(GradioClient ''alexff91/FitMirrorUp'', Some (Inr (JStr ''alexff91/FitMirrorUp''))),
      (BufferFrom (JStr ''TWFu'') ''base64'', Some (Inr (JBuf [77, 97, 110]))),
      (BufferFrom (JStr ''TWE='') ''base64'', Some (Inr (JBuf [77, 97]))),
      (WriteFileSync ''uploads/humanImage_from_base64.jpg'' (JBuf [77, 97, 110]), Some (Inr JUndefined)),
      (WriteFileSync ''uploads/garmentImage_from_base64.jpg'' (JBuf [77, 97]), Some (Inr JUndefined)),
      (SharpToFile (JStr ''uploads/humanImage_from_base64.jpg'') ''uploads/humanImage_resized.jpg'' 400 600,
       Some (Inr (JObj [(''width'', JNum 400), (''height'', JNum 600)]))),
      (SharpToFile (JStr ''uploads/garmentImage_from_base64.jpg'') ''uploads/garmentImage_resized.jpg'' 400 600,
       Some (Inr (JObj [(''width'', JNum 400), (''height'', JNum 600)]))),
      (ReadFile ''uploads/humanImage_resized.jpg'', Some (Inr (JBuf [77, 97, 110]))),
      (ReadFile ''uploads/garmentImage_resized.jpg'', Some (Inr (JBuf [77, 97]))),
      (Predict (JStr ''alexff91/FitMirrorUp'') ''/tryon''
        [JObj [(''background'', JBuf [77, 97, 110]), (''layers'', JArr []), (''composite'', JNull)],
         JBuf [77, 97], JStr [], JBool True, JBool True, JNum 30, JNum 42],
       Some (Inr (JObj [(''data'', JArr [JObj [(''url'', JStr ''https://space.example/file=out.png'')]])]))),
      (Axios \<lparr>cfg_url = JStr ''https://space.example/file=out.png'', cfg_responseType = ''arraybuffer'',
               cfg_timeout = None\<rparr>,
       Some (Inr (JBuf [77, 97, 110, 77, 97]))),
      (BufferFrom (JBuf [77, 97, 110, 77, 97]) ''binary'', Some (Inr (JBuf [77, 97, 110, 77, 97]))),
      (BufferToString (JBuf [77, 97, 110, 77, 97]) ''base64'', Some (Inr (JStr ''TWFuTWE='')))],
     Some (Response 200 [] (Json (JObj [(''result'', JStr ''TWFuTWE='')]))))"
    unfolding typed_tryon_base64_def by (simp add: world_simps)
  have b: "run (typed_tryon_media request_a) offline world0 =
    ([(GradioClient ''alexff91/FitMirrorUp'', Some (Inr (JStr ''alexff91/FitMirrorUp''))),
      (SharpToFile (JStr ''uploads/a1'') ''uploads/humanImage_resized.jpg'' 400 600,
       Some (Inr (JObj [(''width'', JNum 400), (''height'', JNum 600)]))),
      (SharpToFile (JStr ''uploads/a2'') ''uploads/garmentImage_resized.jpg'' 400 600,
       Some (Inr (JObj [(''width'', JNum 400), (''height'', JNum 600)]))),
      (ReadFile ''uploads/humanImage_resized.jpg'', Some (Inr (JBuf [1, 1, 1]))),
      (ReadFile ''uploads/garmentImage_resized.jpg'', Some (Inr (JBuf [2, 2]))),
      (Predict (JStr ''alexff91/FitMirrorUp'') ''/tryon''
        [JObj [(''background'', JBuf [1, 1, 1]), (''layers'', JArr []), (''composite'', JNull)],
         JBuf [2, 2], JStr ''cloth fitting the person shape'', JBool True, JBool True, JNum 30, JNum 42],
       Some (Inr (JObj [(''data'', JArr [JObj [(''url'', JStr ''https://space.example/file=out.png'')]])]))),
      (Axios \<lparr>cfg_url = JStr ''https://space.example/file=out.png'', cfg_responseType = ''arraybuffer'',
               cfg_timeout = None\<rparr>,
       Some (Inl (JsError ''socket hang up'' None)))],
     Some (Response 500 [] (Json (JObj [(''error'', JStr ''socket hang up'')]))))"
    unfolding typed_tryon_media_def by (simp add: world_simps)
  have c: "result_data_0_url (JObj [(''data'', JArr [JObj [(''url'', JStr ''https://space.example/file=out.png'')]])]) =
     Inr (JStr ''https://space.example/file=out.png'')"
    by (simp add: result_data_0_url_def)
  from c result_is_relayed[of request_base64 node world0] result_is_relayed[of request_a offline world0]
  show ?thesis
    by (simp add: a b from_predict_def is_predict_def)
qed

section \<open>The timeout of a download\<close>

lemma timeout_app_tryon:
  "all_runs (app_tryon req) (\<lambda>tr res. list_all (\<lambda>cfg. cfg_timeout cfg = Some 60000) (stream_configs tr))"
  unfolding app_tryon_def by (simp add: prog_simps stream_configs_def List.map_filter_simps)

lemma timeout_typed_tryon:
  "all_runs (typed_tryon req) (\<lambda>tr res. list_all (\<lambda>cfg. cfg_timeout cfg = Some 60000) (stream_configs tr))"
  unfolding typed_tryon_def by (simp add: prog_simps stream_configs_def List.map_filter_simps)

lemma timeout_typed_tryon_media:
  "all_runs (typed_tryon_media req)
     (\<lambda>tr res. list_all (\<lambda>cfg. cfg_timeout cfg = Some 60000) (stream_configs tr))"
  unfolding typed_tryon_media_def by (simp add: prog_simps stream_configs_def List.map_filter_simps)

lemma timeout_typed_tryon_url:
  "all_runs (typed_tryon_url req)
     (\<lambda>tr res. list_all (\<lambda>cfg. cfg_timeout cfg = Some 60000) (stream_configs tr))"
  unfolding typed_tryon_url_def by (simp add: prog_simps stream_configs_def List.map_filter_simps)

lemma timeout_tryon_3000:
  "all_runs (tryon_3000 req) (\<lambda>tr res. list_all (\<lambda>cfg. cfg_timeout cfg = None) (stream_configs tr))"
  unfolding tryon_3000_def by (simp add: prog_simps stream_configs_def List.map_filter_simps)

text \<open>
  C6. The downloads of app.mjs and of the first module of part_000 carry \<^verbatim>\<open>timeout: 60000\<close>;
  those of the second module of part_000 (port 3000) carry no timeout. For a person image at a
  site that never answers, \<^verbatim>\<open>/tryon\<close> of app.mjs responds 500 once axios gives up, and \<^verbatim>\<open>/tryon\<close> of
  the second module waits for ever and sends no response.
\<close>

theorem download_timeouts:
  "list_all (\<lambda>cfg. cfg_timeout cfg = Some 60000) (stream_configs (fst (run (app_tryon req) env w))) \<and>
   list_all (\<lambda>cfg. cfg_timeout cfg = Some 60000) (stream_configs (fst (run (typed_tryon req) env w))) \<and>
   list_all (\<lambda>cfg. cfg_timeout cfg = Some 60000) (stream_configs (fst (run (typed_tryon_media req) env w))) \<and>
   list_all (\<lambda>cfg. cfg_timeout cfg = Some 60000) (stream_configs (fst (run (typed_tryon_url req) env w))) \<and>
   list_all (\<lambda>cfg. cfg_timeout cfg = None) (stream_configs (fst (run (tryon_3000 req) env w))) \<and>
   run (app_tryon request_silent) node world0 =
     ([(GradioClient ''alexff91/FitMirror'', Some (Inr (JStr ''alexff91/FitMirror''))),
       (Axios \<lparr>cfg_url = JStr ''https://silent.example/human.jpg'', cfg_responseType = ''stream'',
                cfg_timeout = Some 60000\<rparr>,
        Some (Inl (JsError ''timeout exceeded'' None)))],
      Some (Response 500 [] (Json (JObj [(''error'', JStr ''timeout exceeded'')])))) \<and>
   run (tryon_3000 request_silent) node world0 =
     ([(GradioClient ''alexff91/FitMirror'', Some (Inr (JStr ''alexff91/FitMirror''))),
       (Axios \<lparr>cfg_url = JStr ''https://silent.example/human.jpg'', cfg_responseType = ''stream'',
                cfg_timeout = None\<rparr>,
        None)],
      None)"
proof -
  have a: "run (app_tryon request_silent) node world0 =
     ([(GradioClient ''alexff91/FitMirror'', Some (Inr (JStr ''alexff91/FitMirror''))),
       (Axios \<lparr>cfg_url = JStr ''https://silent.example/human.jpg'', cfg_responseType = ''stream'',
                cfg_timeout = Some 60000\<rparr>,
        Some (Inl (JsError ''timeout exceeded'' None)))],
      Some (Response 500 [] (Json (JObj [(''error'', JStr ''timeout exceeded'')]))))"
    unfolding app_tryon_def by (simp add: world_simps)
  have b: "run (tryon_3000 request_silent) node world0 =
     ([(GradioClient ''alexff91/FitMirror'', Some (Inr (JStr ''alexff91/FitMirror''))),
       (Axios \<lparr>cfg_url = JStr ''https://silent.example/human.jpg'', cfg_responseType = ''stream'',
                cfg_timeout = None\<rparr>,
        None)],
      None)"
    unfolding tryon_3000_def by (simp add: world_simps)
  from a b all_runs_run[OF timeout_app_tryon, of req env w] all_runs_run[OF timeout_typed_tryon, of req env w]
    all_runs_run[OF timeout_typed_tryon_media, of req env w]
    all_runs_run[OF timeout_typed_tryon_url, of req env w]
    all_runs_run[OF timeout_tryon_3000, of req env w]
  show ?thesis by simp
qed

section \<open>Two requests and one pair of resized files\<close>

text \<open>A request that is scheduled alone runs as \<open>run\<close> says.\<close>

lemma interleave_blocked:
  "interleave env (replicate n True) (None, tr) b w = ((None, tr), b)"
  by (induction n arbitrary: w) simp_all

lemma interleave_alone:
  "length (fst (run p env w)) \<le> n \<Longrightarrow>
   (case interleave env (replicate n True) (Some p, tr) b w of
      (a', b') \<Rightarrow> snd a' = tr @ fst (run p env w) \<and> responded a' = snd (run p env w) \<and> b' = b)"
proof (induction n arbitrary: p tr w)
  case 0
  then show ?case
    by (cases p) (auto split: prod.splits option.splits)
next
  case (Suc n)
  show ?case
  proof (cases p)
    case (Return x)
    with Suc.IH[of "Return x" w tr] show ?thesis by simp
  next
    case (Throw e)
    with Suc.IH[of "Throw e" w tr] show ?thesis by simp
  next
    case (Call c k)
    show ?thesis
    proof (cases "env c w")
      case (Pair outcome w')
      show ?thesis
      proof (cases outcome)
        case None
        with Pair Call show ?thesis by (simp add: interleave_blocked)
      next
        case (Some r)
        with Pair Call Suc.prems have "length (fst (run (k r) env w')) \<le> n"
          by (simp add: split_beta)
        from Suc.IH[OF this, of "tr @ [(c, Some r)]"] Pair Some Call show ?thesis
          by (simp add: split_beta)
      qed
    qed
  qed
qed

text \<open>
  C8. Two requests to \<^verbatim>\<open>/tryon/media\<close>, each with two uploads of its own. When the second request
  resizes its images after the first has resized its own and before the first has read them
  back, the first request sends the model the images of the second and responds with the
  picture of the second; alone, it responds with its own. The same holds of \<^verbatim>\<open>/tryon\<close> of
  app.mjs, shown on its payload. Every try-on handler writes the resized images to
  \<^verbatim>\<open>uploads/humanImage_resized.jpg\<close> and \<^verbatim>\<open>uploads/garmentImage_resized.jpg\<close>.
\<close>

theorem concurrent_requests_share_files:
  "responded (fst (interleave node [True, True, True, False, False, False, True, True, True, True]
      (start (typed_tryon_media request_a)) (start (typed_tryon_media request_b)) world0)) =
     Some (Response 200 [(''Content-Type'', ''image/png'')] (Send (JBuf [7, 7, 7, 8, 8]))) \<and>
   snd (run (typed_tryon_media request_a) node world0) =
     Some (Response 200 [(''Content-Type'', ''image/png'')] (Send (JBuf [1, 1, 1, 2, 2]))) \<and>
   predict_calls (snd (fst (interleave node [True, True, True, False, False, False, True, True, True]
      (start (app_tryon request_a)) (start (app_tryon request_b)) world0))) =
     [Predict (JStr ''alexff91/FitMirror'') ''/tryon''
       [JObj [(''background'', JBuf [7, 7, 7]), (''layers'', JArr []), (''composite'', JNull)],
        JBuf [8, 8], JStr ''cloth fitting the person shape'', JBool True, JBool True, JNum 30, JNum 42]] \<and>
   predict_calls (fst (run (app_tryon request_a) node world0)) =
     [Predict (JStr ''alexff91/FitMirror'') ''/tryon''
       [JObj [(''background'', JBuf [1, 1, 1]), (''layers'', JArr []), (''composite'', JNull)],
        JBuf [2, 2], JStr ''cloth fitting the person shape'', JBool True, JBool True, JNum 30, JNum 42]]"
proof -
  have a: "responded (fst (interleave node [True, True, True, False, False, False, True, True, True, True]
      (start (typed_tryon_media request_a)) (start (typed_tryon_media request_b)) world0)) =
     Some (Response 200 [(''Content-Type'', ''image/png'')] (Send (JBuf [7, 7, 7, 8, 8])))"
    unfolding typed_tryon_media_def by (simp add: world_simps)
  have b: "snd (run (typed_tryon_media request_a) node world0) =
     Some (Response 200 [(''Content-Type'', ''image/png'')] (Send (JBuf [1, 1, 1, 2, 2])))"
    unfolding typed_tryon_media_def by (simp add: world_simps)
  have c: "predict_calls (snd (fst (interleave node [True, True, True, False, False, False, True, True, True]
      (start (app_tryon request_a)) (start (app_tryon request_b)) world0))) =
     [Predict (JStr ''alexff91/FitMirror'') ''/tryon''
       [JObj [(''background'', JBuf [7, 7, 7]), (''layers'', JArr []), (''composite'', JNull)],
        JBuf [8, 8], JStr ''cloth fitting the person shape'', JBool True, JBool True, JNum 30, JNum 42]]"
    unfolding app_tryon_def by (simp add: world_simps predict_calls_def is_predict_def)
  have d: "predict_calls (fst (run (app_tryon request_a) node world0)) =
     [Predict (JStr ''alexff91/FitMirror'') ''/tryon''
       [JObj [(''background'', JBuf [1, 1, 1]), (''layers'', JArr []), (''composite'', JNull)],
        JBuf [2, 2], JStr ''cloth fitting the person shape'', JBool True, JBool True, JNum 30, JNum 42]]"
    unfolding app_tryon_def by (simp add: world_simps predict_calls_def is_predict_def)
  from a b c d show ?thesis by simp
qed

section \<open>The default description\<close>


section \<open>An upload and a URL for one image\<close>







end
